theory Spec2Isabelle
  imports Main
begin

section \<open>Python values and dictionaries\<close>

text \<open>
  The module \<^verbatim>\<open>icinga_api.py\<close> builds one dictionary, \<^verbatim>\<open>argument_spec\<close>, hands it to
  the automation framework's \<^verbatim>\<open>AnsibleModule\<close>, and exits with
  \<^verbatim>\<open>exit_json(changed=False, meta=module.params)\<close>. The values it handles are Python
  values: \<^verbatim>\<open>None\<close>, booleans, integers, strings, lists, tuples and dictionaries.
\<close>

datatype pyval =
    PNone
  | PBool bool
  | PInt int
  | PStr string
  | PList "pyval list"
  | PTuple "pyval list"
  | PDict "(string \<times> pyval) list"

text \<open>A dictionary written out in the source, entry by entry.\<close>

type_synonym pydict = "(string \<times> pyval) list"

text \<open>A dictionary that is only looked up and stored into: the task's parameters.\<close>

type_synonym pymap = "string \<rightharpoonup> pyval"

text \<open>\<^verbatim>\<open>d[k] = v\<close>: an existing key keeps its place, a new key is added.\<close>

fun dict_set :: "pydict \<Rightarrow> string \<Rightarrow> pyval \<Rightarrow> pydict" where
  "dict_set [] k v = [(k, v)]"
| "dict_set ((k', v') # d) k v =
     (if k' = k then (k, v) # d else (k', v') # dict_set d k v)"

text \<open>\<^verbatim>\<open>d.update(e)\<close>: every entry of \<open>e\<close> is stored into \<open>d\<close>.\<close>

fun dict_update :: "pydict \<Rightarrow> pydict \<Rightarrow> pydict" where
  "dict_update d [] = d"
| "dict_update d ((k, v) # e) = dict_update (dict_set d k v) e"

text \<open>Python's truth value of an object, as \<^verbatim>\<open>if x:\<close> reads it.\<close>

fun truthy :: "pyval \<Rightarrow> bool" where
  "truthy PNone = False"
| "truthy (PBool b) = b"
| "truthy (PInt i) = (i \<noteq> 0)"
| "truthy (PStr s) = (s \<noteq> [])"
| "truthy (PList xs) = (xs \<noteq> [])"
| "truthy (PTuple xs) = (xs \<noteq> [])"
| "truthy (PDict d) = (d \<noteq> [])"

section \<open>The world outside the module\<close>

datatype http_method = GET | PUT | POST | DELETE

record http_call =
  verb :: http_method
  path :: string
  body :: "pyval option"

text \<open>
  The remote API answers a call with a status code; \<open>sent\<close> lists the calls issued so
  far. The module imports the framework's HTTP helpers, and \<open>main\<close> never calls one.
\<close>

record world =
  remote :: "http_call \<Rightarrow> nat"
  sent :: "http_call list"

section \<open>The framework's constructor\<close>

text \<open>
  \<^verbatim>\<open>AnsibleModule\<close> and \<^verbatim>\<open>url_argument_spec\<close> come from the automation framework
  (\<^verbatim>\<open>ansible.module_utils\<close>), which is not part of the repository. A run can end in
  three ways other than success: a Python \<^verbatim>\<open>AttributeError\<close> raised while the
  constructor reads the argument spec, the framework's internal error about an entry of
  the argument spec, or a validation error of the argument checks, which names the
  offending fields.
\<close>

datatype error =
    AttributeError
  | InternalError string
  | ValidationError "string list"

text \<open>The fields an error names.\<close>

fun names_field :: "error \<Rightarrow> string \<Rightarrow> bool" where
  "names_field AttributeError f = False"
| "names_field (InternalError k) f = (f = k)"
| "names_field (ValidationError ks) f = (f \<in> set ks)"

text \<open>
  The keyword arguments of \<^verbatim>\<open>AnsibleModule\<close> that the source mentions, with the
  framework's defaults.
\<close>

record module_kwargs =
  check_invalid_arguments :: bool
  mutually_exclusive :: "string list list"
  supports_check_mode :: bool

definition default_kwargs :: module_kwargs where
  "default_kwargs =
     \<lparr>check_invalid_arguments = True, mutually_exclusive = [], supports_check_mode = False\<rparr>"

text \<open>
  Reading one option of an entry of the argument spec, \<^verbatim>\<open>v.get(name, d)\<close>. Only a
  dictionary has \<^verbatim>\<open>get\<close>: on a tuple or a boolean Python raises
  \<^verbatim>\<open>AttributeError\<close>.
\<close>

definition get :: "pyval \<Rightarrow> string \<Rightarrow> pyval \<Rightarrow> error + pyval" where
  "get v name d =
     (case v of
        PDict kvs \<Rightarrow> Inr (case map_of kvs name of Some x \<Rightarrow> x | None \<Rightarrow> d)
      | _ \<Rightarrow> Inl AttributeError)"

fun str_items :: "pyval list \<Rightarrow> string list" where
  "str_items [] = []"
| "str_items (PStr s # vs) = s # str_items vs"
| "str_items (_ # vs) = str_items vs"

text \<open>A parameter given under an alias is copied to the canonical name.\<close>

fun copy_aliases :: "string \<Rightarrow> string list \<Rightarrow> pymap \<Rightarrow> pymap" where
  "copy_aliases k [] p = p"
| "copy_aliases k (a # as) p =
     copy_aliases k as (case p a of Some v \<Rightarrow> p(k \<mapsto> v) | None \<Rightarrow> p)"

text \<open>
  The constructor's pass over the argument spec, before any argument is checked: for
  every entry \<open>(k, v)\<close> it reads \<^verbatim>\<open>v.get('aliases', None)\<close>,
  \<^verbatim>\<open>v.get('default', None)\<close> and \<^verbatim>\<open>v.get('required', False)\<close>, refuses an entry
  that is required and has a default, and copies aliased parameters. The first entry on
  which a read raises ends the pass.
\<close>

fun handle_aliases :: "pydict \<Rightarrow> pymap \<Rightarrow> error + pymap" where
  "handle_aliases [] p = Inr p"
| "handle_aliases ((k, v) # spec) p =
     (case get v ''aliases'' PNone of
        Inl e \<Rightarrow> Inl e
      | Inr aliases \<Rightarrow>
          (case get v ''default'' PNone of
             Inl e \<Rightarrow> Inl e
           | Inr dflt \<Rightarrow>
               (case get v ''required'' (PBool False) of
                  Inl e \<Rightarrow> Inl e
                | Inr required \<Rightarrow>
                    if dflt \<noteq> PNone \<and> truthy required then Inl (InternalError k)
                    else
                      (case aliases of
                         PNone \<Rightarrow> handle_aliases spec p
                       | PList as \<Rightarrow> handle_aliases spec (copy_aliases k (str_items as) p)
                       | _ \<Rightarrow> Inl (InternalError k)))))"

text \<open>
  The argument checks that the constructor runs after that pass (undeclared names,
  mutual exclusion, required fields, types, choices, defaults) belong to the framework.
  They are a parameter: they receive the argument spec, the keyword arguments and the
  parameters after alias handling, and answer \<^verbatim>\<open>module.params\<close> or an error.
\<close>

type_synonym checks = "pydict \<Rightarrow> module_kwargs \<Rightarrow> pymap \<Rightarrow> error + pymap"

text \<open>\<^verbatim>\<open>AnsibleModule(argument_spec, ...)\<close>: the pass over the argument spec, then the checks.\<close>

definition AnsibleModule :: "checks \<Rightarrow> pydict \<Rightarrow> module_kwargs \<Rightarrow> pymap \<Rightarrow> error + pymap" where
  "AnsibleModule chk spec kw raw =
     (case handle_aliases spec raw of
        Inl e \<Rightarrow> Inl e
      | Inr p \<Rightarrow> chk spec kw p)"

text \<open>
  Modelled from the spec: the framework's \<^verbatim>\<open>url_argument_spec()\<close>, which is missing from
  the repository. The entries are the ones the spec's parameter table takes from it:
  the address, the credentials and the certificate policy (default true).
\<close>

definition url_argument_spec :: pydict where
  "url_argument_spec =
     [(''url'', PDict []),
      (''url_username'', PDict [(''required'', PBool False)]),
      (''url_password'', PDict [(''required'', PBool False)]),
      (''validate_certs'', PDict [(''default'', PBool True), (''type'', PStr ''bool'')])]"

section \<open>The module\<close>

text \<open>What \<^verbatim>\<open>exit_json\<close> reports.\<close>

record outcome =
  changed :: bool
  meta :: pymap

definition exit_json :: "bool \<Rightarrow> pymap \<Rightarrow> error + outcome" where
  "exit_json c m = Inr \<lparr>changed = c, meta = m\<rparr>"

text \<open>A run fails when it ends in an error instead of \<^verbatim>\<open>exit_json\<close>.\<close>

definition failed :: "error + outcome \<Rightarrow> bool" where
  "failed r = (case r of Inl _ \<Rightarrow> True | Inr _ \<Rightarrow> False)"

text \<open>The dictionary \<^verbatim>\<open>params\<close> of \<^verbatim>\<open>main\<close>, lines 219 to 280.\<close>

definition params :: pydict where
  "params =
     [(''url'',
         PDict [(''required'', PBool True), (''default'', PNone), (''type'', PStr ''str'')]),
      (''port'',
         PDict [(''required'', PBool False), (''default'', PStr ''5665''),
                (''type'', PStr ''int'')]),
      (''url_username'',
         PDict [(''required'', PBool False), (''default'', PStr ''root''),
                (''aliases'', PList [PStr ''user''])]),
      (''url_password'',
         PDict [(''required'', PBool False), (''default'', PStr ''icinga''),
                (''aliases'', PList [PStr ''password''])]),
      (''endpoint'',
         PDict [(''required'', PBool True), (''default'', PNone), (''type'', PStr ''str''),
                (''choices'', PList [PStr ''objects'', PStr ''status''])]),
      (''object_family'',
         PDict [(''required'', PBool False), (''default'', PNone), (''type'', PStr ''str''),
                (''choices'', PList [PStr ''zones'', PStr ''hostgroups'', PStr ''hosts'',
                                     PStr ''servicegroups'', PStr ''services''])]),
      (''object_name'',
         PDict [(''required'', PBool False), (''default'', PNone), (''type'', PStr ''str''),
                (''aliases'', PList [PStr ''name''])]),
      (''state'',
         PDict [(''required'', PBool False), (''default'', PStr ''present''),
                (''type'', PStr ''str''),
                (''choices'', PList [PStr ''present'', PStr ''absent''])]),
      (''headers'',
         PDict [(''required'', PBool False), (''default'', PDict []),
                (''type'', PStr ''dict'')]),
      (''cascade_delete'',
         PDict [(''required'', PBool False), (''default'', PBool False),
                (''type'', PStr ''bool''),
                (''choices'', PList [PStr ''true'', PStr ''false''])]),
      (''definition'',
         PDict [(''required'', PBool False), (''default'', PDict []),
                (''type'', PStr ''dict'')])]"

text \<open>
  Lines 281 to 287: the framework's entries, updated with \<^verbatim>\<open>params\<close>, updated with a
  dictionary of three more keys. The three are keyword arguments of \<^verbatim>\<open>AnsibleModule\<close>
  by name, and the source stores them into the argument spec; the parenthesised pair
  is a plain tuple of two strings.
\<close>

definition argument_spec :: pydict where
  "argument_spec =
     dict_update (dict_update url_argument_spec params)
       [(''mutually_exclusive'', PTuple [PStr ''cascade_delete'', PStr ''definition'']),
        (''check_invalid_arguments'', PBool False),
        (''supports_check_mode'', PBool True)]"

text \<open>
  Lines 289 to 293, once the constructor has returned or raised: an error ends the run,
  and module parameters are reported with \<^verbatim>\<open>exit_json(changed=False, meta=module.params)\<close>.
  No statement touches the network, so the world comes back as it was.
\<close>

definition main_exit :: "error + pymap \<Rightarrow> world \<Rightarrow> (error + outcome) \<times> world" where
  "main_exit r w =
     (case r of
        Inl e \<Rightarrow> (Inl e, w)
      | Inr module_params \<Rightarrow> (exit_json False module_params, w))"

text \<open>
  \<^verbatim>\<open>main\<close>, lines 214 to 293. The locals \<^verbatim>\<open>changed\<close> and \<^verbatim>\<open>failed\<close> are set to
  \<^verbatim>\<open>False\<close> and never read. \<^verbatim>\<open>AnsibleModule\<close> gets the argument spec and no other
  argument, so every keyword argument has its default.
\<close>

definition main :: "checks \<Rightarrow> world \<Rightarrow> pymap \<Rightarrow> (error + outcome) \<times> world" where
  "main chk w raw = main_exit (AnsibleModule chk argument_spec default_kwargs raw) w"

section \<open>Concrete worlds and parameter sets\<close>

text \<open>A remote API that answers every call with 200, and one that answers 404.\<close>

definition w200 :: world where
  "w200 = \<lparr>remote = (\<lambda>_. 200), sent = []\<rparr>"



text \<open>Scenario B: a zone is declared present (the first of the module's examples).\<close>

definition zone_definition :: pydict where
  "zone_definition =
     [(''templates'', PList [PStr ''generic-zone'']),
      (''attrs'', PDict [(''endpoints'', PList [PStr ''master''])])]"

definition scenarioB :: pymap where
  "scenarioB =
     [''url'' \<mapsto> PStr ''icinga.example.com'', ''endpoint'' \<mapsto> PStr ''objects'',
      ''object_family'' \<mapsto> PStr ''zones'', ''object_name'' \<mapsto> PStr ''checker'',
      ''state'' \<mapsto> PStr ''present'', ''definition'' \<mapsto> PDict zone_definition]"


text \<open>Scenario D: the endpoint is missing.\<close>

definition scenarioD :: pymap where
  "scenarioD = [''url'' \<mapsto> PStr ''icinga.example.com'']"

text \<open>Cascade and a non-empty definition together.\<close>

definition host_definition :: pydict where
  "host_definition = [(''attrs'', PDict [(''address'', PStr ''127.0.0.1'')])]"

definition cascade_and_definition :: pymap where
  "cascade_and_definition =
     [''url'' \<mapsto> PStr ''icinga.example.com'', ''endpoint'' \<mapsto> PStr ''objects'',
      ''object_family'' \<mapsto> PStr ''hosts'', ''object_name'' \<mapsto> PStr ''web'',
      ''state'' \<mapsto> PStr ''absent'', ''cascade_delete'' \<mapsto> PBool True,
      ''definition'' \<mapsto> PDict host_definition]"




text \<open>The status endpoint with state = absent and a definition.\<close>

definition status_absent_definition :: pymap where
  "status_absent_definition =
     [''url'' \<mapsto> PStr ''icinga.example.com'', ''endpoint'' \<mapsto> PStr ''status'',
      ''state'' \<mapsto> PStr ''absent'', ''definition'' \<mapsto> PDict zone_definition]"

section \<open>The run of the constructor on the module's argument spec\<close>

lemmas table_defs = argument_spec_def url_argument_spec_def params_def

lemma argument_spec_keys:
  "map fst argument_spec =
     [''url'', ''url_username'', ''url_password'', ''validate_certs'', ''port'',
      ''endpoint'', ''object_family'', ''object_name'', ''state'', ''headers'',
      ''cascade_delete'', ''definition'', ''mutually_exclusive'',
      ''check_invalid_arguments'', ''supports_check_mode'']"
  by (simp add: table_defs)

lemma argument_spec_eq:
  "argument_spec =
     [(''url'',
         PDict [(''required'', PBool True), (''default'', PNone), (''type'', PStr ''str'')]),
      (''url_username'',
         PDict [(''required'', PBool False), (''default'', PStr ''root''),
                (''aliases'', PList [PStr ''user''])]),
      (''url_password'',
         PDict [(''required'', PBool False), (''default'', PStr ''icinga''),
                (''aliases'', PList [PStr ''password''])]),
      (''validate_certs'', PDict [(''default'', PBool True), (''type'', PStr ''bool'')]),
      (''port'',
         PDict [(''required'', PBool False), (''default'', PStr ''5665''),
                (''type'', PStr ''int'')]),
      (''endpoint'',
         PDict [(''required'', PBool True), (''default'', PNone), (''type'', PStr ''str''),
                (''choices'', PList [PStr ''objects'', PStr ''status''])]),
      (''object_family'',
         PDict [(''required'', PBool False), (''default'', PNone), (''type'', PStr ''str''),
                (''choices'', PList [PStr ''zones'', PStr ''hostgroups'', PStr ''hosts'',
                                     PStr ''servicegroups'', PStr ''services''])]),
      (''object_name'',
         PDict [(''required'', PBool False), (''default'', PNone), (''type'', PStr ''str''),
                (''aliases'', PList [PStr ''name''])]),
      (''state'',
         PDict [(''required'', PBool False), (''default'', PStr ''present''),
                (''type'', PStr ''str''),
                (''choices'', PList [PStr ''present'', PStr ''absent''])]),
      (''headers'',
         PDict [(''required'', PBool False), (''default'', PDict []),
                (''type'', PStr ''dict'')]),
      (''cascade_delete'',
         PDict [(''required'', PBool False), (''default'', PBool False),
                (''type'', PStr ''bool''),
                (''choices'', PList [PStr ''true'', PStr ''false''])]),
      (''definition'',
         PDict [(''required'', PBool False), (''default'', PDict []),
                (''type'', PStr ''dict'')]),
      (''mutually_exclusive'', PTuple [PStr ''cascade_delete'', PStr ''definition'']),
      (''check_invalid_arguments'', PBool False),
      (''supports_check_mode'', PBool True)]"
  by (simp add: table_defs)

text \<open>The pass handles the first entry, then the rest.\<close>

lemma handle_aliases_Cons:
  "handle_aliases (x # spec) p =
     (case handle_aliases [x] p of Inl e \<Rightarrow> Inl e | Inr p' \<Rightarrow> handle_aliases spec p')"
  by (cases x) (simp split: sum.splits pyval.splits)

text \<open>
  Whatever the order in which the dictionary is walked: when one entry is not a
  dictionary, and no entry alone makes the pass end in another error, the pass raises
  \<^verbatim>\<open>AttributeError\<close>.
\<close>

lemma handle_aliases_raises:
  assumes "(k, v) \<in> set spec"
    and "\<And>p. handle_aliases [(k, v)] p = Inl AttributeError"
    and "\<And>x e p. x \<in> set spec \<Longrightarrow> handle_aliases [x] p = Inl e \<Longrightarrow> e = AttributeError"
  shows "handle_aliases spec p = Inl AttributeError"
  using assms(1,3)
proof (induction spec arbitrary: p)
  case Nil
  then show ?case by simp
next
  case (Cons x spec)
  show ?case
  proof (cases "handle_aliases [x] p")
    case (Inl e)
    from Cons.prems(2) [OF _ Inl] have "e = AttributeError" by simp
    with Inl show ?thesis
      by (simp add: handle_aliases_Cons [of x spec])
  next
    case (Inr p')
    with assms(2) [of p] have "x \<noteq> (k, v)" by auto
    with Cons.prems(1) have "(k, v) \<in> set spec" by simp
    have "handle_aliases spec p' = Inl AttributeError"
    proof (rule Cons.IH [OF \<open>(k, v) \<in> set spec\<close>])
      fix y q e
      assume "y \<in> set spec" and "handle_aliases [y] q = Inl e"
      with Cons.prems(2) [of y q e] show "e = AttributeError" by simp
    qed
    with Inr show ?thesis
      by (simp add: handle_aliases_Cons [of x spec])
  qed
qed

text \<open>On the module's argument spec the only error an entry can cause is that one.\<close>

lemma argument_spec_entries:
  assumes "x \<in> set argument_spec" and "handle_aliases [x] p = Inl e"
  shows "e = AttributeError"
  using assms by (auto simp: argument_spec_eq get_def split: if_splits)

lemma handle_aliases_any_order:
  assumes "set spec = set argument_spec"
  shows "handle_aliases spec p = Inl AttributeError"
proof (rule handle_aliases_raises)
  show "(''mutually_exclusive'', PTuple [PStr ''cascade_delete'', PStr ''definition''])
      \<in> set spec"
    by (simp add: assms argument_spec_eq)
  show "handle_aliases
      [(''mutually_exclusive'', PTuple [PStr ''cascade_delete'', PStr ''definition''])] q
      = Inl AttributeError" for q
    by (simp add: get_def)
  show "e = AttributeError" if "x \<in> set spec" and "handle_aliases [x] q = Inl e" for x e q
    using that argument_spec_entries [of x q e] by (simp add: assms)
qed

lemma handle_aliases_argument_spec: "handle_aliases argument_spec p = Inl AttributeError"
  by (rule handle_aliases_any_order) simp

text \<open>So every run of \<open>main\<close> ends in the constructor, whatever the parameters and the checks.\<close>

lemma main_raises: "main chk w raw = (Inl AttributeError, w)"
  by (simp add: main_def main_exit_def AnsibleModule_def handle_aliases_argument_spec)

lemma entry_lookups:
  "map_of argument_spec ''state'' =
     Some (PDict [(''required'', PBool False), (''default'', PStr ''present''),
                  (''type'', PStr ''str''),
                  (''choices'', PList [PStr ''present'', PStr ''absent''])])"
  "map_of argument_spec ''port'' =
     Some (PDict [(''required'', PBool False), (''default'', PStr ''5665''),
                  (''type'', PStr ''int'')])"
  "map_of argument_spec ''url_username'' =
     Some (PDict [(''required'', PBool False), (''default'', PStr ''root''),
                  (''aliases'', PList [PStr ''user''])])"
  "map_of argument_spec ''url_password'' =
     Some (PDict [(''required'', PBool False), (''default'', PStr ''icinga''),
                  (''aliases'', PList [PStr ''password''])])"
  "map_of argument_spec ''object_family'' =
     Some (PDict [(''required'', PBool False), (''default'', PNone), (''type'', PStr ''str''),
                  (''choices'', PList [PStr ''zones'', PStr ''hostgroups'', PStr ''hosts'',
                                       PStr ''servicegroups'', PStr ''services''])])"
  "map_of argument_spec ''mutually_exclusive'' =
     Some (PTuple [PStr ''cascade_delete'', PStr ''definition''])"
  by (simp_all add: argument_spec_eq)

text \<open>
  A second fact of the table: the default of cascade_delete, \<^verbatim>\<open>False\<close>, is not one of
  its own choices, the strings true and false.
\<close>

lemma cascade_delete_default_outside_choices:
  "map_option (\<lambda>e. get e ''default'' PNone) (map_of argument_spec ''cascade_delete'')
       = Some (Inr (PBool False))
   \<and> map_option (\<lambda>e. get e ''choices'' PNone) (map_of argument_spec ''cascade_delete'')
       = Some (Inr (PList [PStr ''true'', PStr ''false'']))
   \<and> PBool False \<notin> set [PStr ''true'', PStr ''false'']"
  by (simp add: argument_spec_eq get_def)

section \<open>The claims\<close>

subsection \<open>C1\<close>


subsection \<open>C2\<close>


subsection \<open>C3\<close>


subsection \<open>C4\<close>

text \<open>
  C4: the pair (cascade_delete, definition) sits in the argument spec under the key
  \<^verbatim>\<open>mutually_exclusive\<close> and the keyword argument of that name keeps its default, no
  group. With cascade_delete = true and a non-empty definition the run raises in the
  constructor, with an error that names neither field.
\<close>

theorem exclusion_never_checked:
  "map_of argument_spec ''mutually_exclusive''
       = Some (PTuple [PStr ''cascade_delete'', PStr ''definition''])
   \<and> mutually_exclusive default_kwargs = []
   \<and> main chk w200 cascade_and_definition = (Inl AttributeError, w200)
   \<and> \<not> names_field AttributeError ''cascade_delete''
   \<and> \<not> names_field AttributeError ''definition''"
  by (simp add: main_raises entry_lookups default_kwargs_def)

subsection \<open>C5\<close>


subsection \<open>C6\<close>

text \<open>
  C6: on scenario D (the endpoint is missing) the run raises in the constructor; the
  error does not name the field endpoint, and no call is sent.
\<close>

theorem missing_endpoint_names_no_field:
  "main chk w200 scenarioD = (Inl AttributeError, w200)
   \<and> \<not> names_field AttributeError ''endpoint''
   \<and> sent (snd (main chk w200 scenarioD)) = []"
  by (simp add: main_raises w200_def)

subsection \<open>C7\<close>


subsection \<open>C8\<close>


subsection \<open>C9\<close>

text \<open>
  C9: whenever argument validation passes, the reported outcome has changed = false: no
  input produces changed = true. This holds of \<open>main\<close> and, whatever the constructor
  returns, of the exit of \<open>main\<close>, where the only report is
  \<^verbatim>\<open>exit_json(changed=False, ...)\<close>.
\<close>

theorem changed_never_true:
  "(fst (main chk w raw) = Inr out \<longrightarrow> changed out = False)
   \<and> (fst (main_exit r w') = Inr out' \<longrightarrow> changed out' = False)"
  by (auto simp: main_def main_exit_def exit_json_def split: sum.splits)

theorem changed_never_true_witness:
  "fst (main_exit (Inr scenarioB) w200) = Inr \<lparr>changed = False, meta = scenarioB\<rparr>
   \<and> changed \<lparr>changed = False, meta = scenarioB\<rparr> = False"
  using changed_never_true [of _ _ _ _ "Inr scenarioB" w200 "\<lparr>changed = False, meta = scenarioB\<rparr>"]
  by (simp add: main_exit_def exit_json_def)

subsection \<open>C10\<close>

text \<open>
  C10: with endpoint = status, state = absent and a definition, the run raises in the
  constructor: the parameter set is not accepted and no definition is reported.
\<close>

theorem definition_run_raises:
  "main chk w200 status_absent_definition = (Inl AttributeError, w200)
   \<and> failed (fst (main chk w200 status_absent_definition))"
  by (simp add: main_raises failed_def)

end
